theory Spec2Isabelle
  imports Complex_Main "HOL-Library.Sublist"
begin

section \<open>Values exchanged with the service\<close>

text \<open>
  \<^verbatim>\<open>chat.py\<close> handles the values that \<^verbatim>\<open>json.loads\<close> returns and
  \<^verbatim>\<open>json.dumps\<close> accepts: \<^verbatim>\<open>None\<close>, booleans, integers, floats, strings,
  lists and dictionaries with string keys. A dictionary is the association list of its
  items; a key is looked up from the left. Python's \<^verbatim>\<open>None\<close> is \<open>JNull\<close>.
\<close>

datatype pyfloat = Finite rat | PosInf | NegInf | NaN

datatype json =
    JNull
  | JBool bool
  | JInt int
  | JFloat pyfloat
  | JStr string
  | JArr "json list"
  | JObj "(string \<times> json) list"

text \<open>
  Every exception the modelled code can raise. The last six are the
  \<^verbatim>\<open>Exception(...)\<close> objects the source builds itself, with the value formatted
  into the message.
\<close>

datatype error =
    ConnectError
  | ConnectionClosed
  | CancelledError
  | JSONDecodeError
  | AttributeError
  | TypeError
  | KeyError
  | ExpectedSessionCreated json
  | ItemCreationError json
  | ExpectedItemCreated
  | ApiError json
  | StreamError json
  | NoValidResponse

subsection \<open>The Python operations the source applies to these values\<close>

text \<open>\<^verbatim>\<open>d.get(k, default)\<close>; on a value that is not a dictionary the attribute is missing.\<close>

fun dict_get :: "json \<Rightarrow> string \<Rightarrow> json \<Rightarrow> error + json" where
  "dict_get (JObj kvs) k d = Inr (case map_of kvs k of None \<Rightarrow> d | Some v \<Rightarrow> v)"
| "dict_get _ k d = Inl AttributeError"

text \<open>\<^verbatim>\<open>d[k]\<close> with a string key.\<close>

fun subscript :: "json \<Rightarrow> string \<Rightarrow> error + json" where
  "subscript (JObj kvs) k = (case map_of kvs k of None \<Rightarrow> Inl KeyError | Some v \<Rightarrow> Inr v)"
| "subscript _ k = Inl TypeError"

text \<open>\<^verbatim>\<open>s in t\<close> for strings: \<open>s\<close> occurs in \<open>t\<close>.\<close>

fun occurs_in :: "string \<Rightarrow> string \<Rightarrow> bool" where
  "occurs_in s [] = (s = [])"
| "occurs_in s (c # cs) = (prefix s (c # cs) \<or> occurs_in s cs)"

text \<open>\<^verbatim>\<open>k in v\<close> for a string \<open>k\<close>: key of a dictionary, element of a list, part of a string.\<close>

fun py_in :: "string \<Rightarrow> json \<Rightarrow> error + bool" where
  "py_in k (JObj kvs) = Inr (k \<in> set (map fst kvs))"
| "py_in k (JArr xs) = Inr (JStr k \<in> set xs)"
| "py_in k (JStr s) = Inr (occurs_in k s)"
| "py_in k _ = Inl TypeError"

text \<open>The items a \<^verbatim>\<open>for\<close> loop visits: elements, characters, or keys.\<close>

fun py_iter :: "json \<Rightarrow> error + json list" where
  "py_iter (JArr xs) = Inr xs"
| "py_iter (JStr s) = Inr (map (\<lambda>c. JStr [c]) s)"
| "py_iter (JObj kvs) = Inr (map JStr (remdups (map fst kvs)))"
| "py_iter _ = Inl TypeError"

text \<open>Truth value of a Python object, as \<^verbatim>\<open>not response\<close> tests it.\<close>

fun truthy :: "json \<Rightarrow> bool" where
  "truthy JNull = False"
| "truthy (JBool b) = b"
| "truthy (JInt i) = (i \<noteq> 0)"
| "truthy (JFloat f) = (f \<noteq> Finite 0)"
| "truthy (JStr s) = (s \<noteq> [])"
| "truthy (JArr xs) = (xs \<noteq> [])"
| "truthy (JObj kvs) = (kvs \<noteq> [])"

fun is_dict :: "json \<Rightarrow> bool" where
  "is_dict (JObj kvs) = True"
| "is_dict _ = False"

section \<open>The connection\<close>

text \<open>
  What the task meets on one connection is the finite list of what its receives find
  before the connection closes: a text that \<^verbatim>\<open>json.loads\<close> decodes to a value, a
  text it rejects, or the cancellation of the task while it waits for the receive
  (\<^verbatim>\<open>asyncio.CancelledError\<close> is raised from the \<^verbatim>\<open>await\<close>).
  \<^verbatim>\<open>websocket.recv()\<close> on the exhausted list raises \<^verbatim>\<open>ConnectionClosed\<close>. The
  messages given to \<^verbatim>\<open>send_message\<close> are recorded in order; sending is taken to
  succeed.
\<close>

datatype frame = Msg json | Undecodable | Cancelled

record websocket =
  inbound :: "frame list"
  outbound :: "json list"

definition send_message :: "websocket \<Rightarrow> json \<Rightarrow> websocket" where
  "send_message ws message = ws\<lparr>outbound := outbound ws @ [message]\<rparr>"

definition receive_message :: "websocket \<Rightarrow> (error + json) \<times> websocket" where
  "receive_message ws =
     (case inbound ws of
        [] \<Rightarrow> (Inl ConnectionClosed, ws)
      | Undecodable # fs \<Rightarrow> (Inl JSONDecodeError, ws\<lparr>inbound := fs\<rparr>)
      | Cancelled # fs \<Rightarrow> (Inl CancelledError, ws\<lparr>inbound := fs\<rparr>)
      | Msg response # fs \<Rightarrow> (Inr response, ws\<lparr>inbound := fs\<rparr>))"

section \<open>\<^verbatim>\<open>chat_completion\<close>\<close>

text \<open>Lines 54 to 58: the first event must be \<^verbatim>\<open>session.created\<close>; the result is the new \<^verbatim>\<open>session_id\<close>.\<close>

definition session_created :: "json \<Rightarrow> error + json" where
  "session_created response =
     (case dict_get response ''type'' JNull of
        Inl e \<Rightarrow> Inl e
      | Inr t \<Rightarrow>
          if t \<noteq> JStr ''session.created'' then
            (case dict_get response ''error'' (JObj []) of
               Inl e \<Rightarrow> Inl e
             | Inr error_details \<Rightarrow> Inl (ExpectedSessionCreated response))
          else
            (case dict_get response ''session'' (JObj []) of
               Inl e \<Rightarrow> Inl e
             | Inr session \<Rightarrow> dict_get session ''id'' JNull))"

text \<open>Lines 62 to 67: one content part per message.\<close>

fun content_messages :: "json list \<Rightarrow> error + json list" where
  "content_messages [] = Inr []"
| "content_messages (msg # messages) =
     (case subscript msg ''content'' of
        Inl e \<Rightarrow> Inl e
      | Inr text \<Rightarrow>
          (case content_messages messages of
             Inl e \<Rightarrow> Inl e
           | Inr parts \<Rightarrow> Inr (JObj [(''type'', JStr ''input_text''), (''text'', text)] # parts)))"

text \<open>Lines 70 to 77.\<close>

definition create_item_request :: "json list \<Rightarrow> json" where
  "create_item_request parts =
     JObj [(''type'', JStr ''conversation.item.create''),
           (''item'', JObj [(''type'', JStr ''message''),
                            (''role'', JStr ''user''),
                            (''content'', JArr parts)])]"

text \<open>Lines 84 to 90: the answer to the item request.\<close>

definition item_created :: "json \<Rightarrow> error + unit" where
  "item_created response =
     (case py_in ''error'' response of
        Inl e \<Rightarrow> Inl e
      | Inr True \<Rightarrow>
          (case dict_get response ''error'' (JObj []) of
             Inl e \<Rightarrow> Inl e
           | Inr error_details \<Rightarrow> Inl (ItemCreationError error_details))
      | Inr False \<Rightarrow>
          (case dict_get response ''type'' JNull of
             Inl e \<Rightarrow> Inl e
           | Inr t \<Rightarrow> if t \<noteq> JStr ''conversation.item.created'' then Inl ExpectedItemCreated else Inr ()))"

text \<open>Lines 93 to 96.\<close>

definition response_request :: json where
  "response_request = JObj [(''type'', JStr ''response.create''), (''response'', JObj [])]"

text \<open>
  Lines 101 to 127, on the frames still to come: the result and the frames left unread.
  \<^verbatim>\<open>ConnectionClosed\<close> is caught and ends the loop with \<^verbatim>\<open>final_response = None\<close>;
  every other exception is raised again, and a cancellation passes through.
\<close>

fun stream_loop :: "frame list \<Rightarrow> (error + json) \<times> frame list" where
  "stream_loop [] = (Inr JNull, [])"
| "stream_loop (Undecodable # fs) = (Inl JSONDecodeError, fs)"
| "stream_loop (Cancelled # fs) = (Inl CancelledError, fs)"
| "stream_loop (Msg response # fs) =
     (case py_in ''error'' response of
        Inl e \<Rightarrow> (Inl e, fs)
      | Inr True \<Rightarrow>
          (case dict_get response ''error'' (JObj []) of
             Inl e \<Rightarrow> (Inl e, fs)
           | Inr error_details \<Rightarrow> (Inl (ApiError error_details), fs))
      | Inr False \<Rightarrow>
          (case dict_get response ''type'' (JStr '''') of
             Inl e \<Rightarrow> (Inl e, fs)
           | Inr response_type \<Rightarrow>
               if response_type = JStr ''response.done'' then
                 (case dict_get response ''response'' (JObj []) of
                    Inl e \<Rightarrow> (Inl e, fs)
                  | Inr final_response \<Rightarrow> (Inr final_response, fs))
               else if response_type = JStr ''error'' then
                 (case dict_get response ''error'' (JObj []) of
                    Inl e \<Rightarrow> (Inl e, fs)
                  | Inr error_details \<Rightarrow> (Inl (StreamError error_details), fs))
               else stream_loop fs))"

definition stream_events :: "websocket \<Rightarrow> (error + json) \<times> websocket" where
  "stream_events ws = (case stream_loop (inbound ws) of (r, fs) \<Rightarrow> (r, ws\<lparr>inbound := fs\<rparr>))"

text \<open>Lines 51 to 58: one event is read and checked; the result is the new \<^verbatim>\<open>session_id\<close>.\<close>

definition handshake :: "websocket \<Rightarrow> (error + json) \<times> websocket" where
  "handshake ws0 =
     (case receive_message ws0 of
        (Inl e, ws1) \<Rightarrow> (Inl e, ws1)
      | (Inr response, ws1) \<Rightarrow> (session_created response, ws1))"

text \<open>
  Lines 50 to 127: the body of the \<^verbatim>\<open>async with\<close> block. The parameter
  \<^verbatim>\<open>session_id\<close> is assigned at line 58 and only logged afterwards.
\<close>

definition exchange :: "json list \<Rightarrow> json \<Rightarrow> websocket \<Rightarrow> (error + json) \<times> websocket" where
  "exchange messages session_id ws0 =
     (case handshake ws0 of
        (Inl e, ws1) \<Rightarrow> (Inl e, ws1)
      | (Inr session_id, ws1) \<Rightarrow>
     (case content_messages messages of
        Inl e \<Rightarrow> (Inl e, ws1)
      | Inr parts \<Rightarrow>
     (case receive_message (send_message ws1 (create_item_request parts)) of
        (Inl e, ws2) \<Rightarrow> (Inl e, ws2)
      | (Inr response, ws2) \<Rightarrow>
     (case item_created response of
        Inl e \<Rightarrow> (Inl e, ws2)
      | Inr _ \<Rightarrow> stream_events (send_message ws2 response_request)))))"

text \<open>
  Lines 35 to 49 and the whole function. The endpoint and the key are the configuration
  values \<^verbatim>\<open>os.getenv\<close> returns, taken as set. Opening the connection either fails
  or gives the frames the server will send on it. The \<^verbatim>\<open>async with\<close> block closes
  the connection when its body is left, whether by \<^verbatim>\<open>return\<close>, by an exception
  or by the cancellation of the task.
  The result comes with the actions on the network, in order.
\<close>

record config =
  endpoint :: string
  api_key :: string

datatype action = Connect string "(string \<times> string) list" | Send json | Close

datatype link = Refused | Accepted "frame list"

text \<open>\<^verbatim>\<open>endpoint.replace('https://', '')\<close>.\<close>

fun replace_https :: "string \<Rightarrow> string" where
  "replace_https [] = []"
| "replace_https (c # cs) =
     (if prefix ''https://'' (c # cs) then replace_https (drop 8 (c # cs))
      else c # replace_https cs)"

definition ws_url :: "config \<Rightarrow> string \<Rightarrow> string" where
  "ws_url cfg deployment =
     ''wss://'' @ replace_https (endpoint cfg)
       @ ''?api-version=2024-10-01-preview&deployment='' @ deployment"

definition headers :: "config \<Rightarrow> (string \<times> string) list" where
  "headers cfg =
     [(''Authorization'', ''Bearer '' @ api_key cfg),
      (''Content-Type'', ''application/json''),
      (''api-key'', api_key cfg)]"

definition chat_completion ::
    "config \<Rightarrow> string \<Rightarrow> json list \<Rightarrow> json \<Rightarrow> link \<Rightarrow> (error + json) \<times> action list" where
  "chat_completion cfg deployment messages session_id lnk =
     (case lnk of
        Refused \<Rightarrow> (Inl ConnectError, [Connect (ws_url cfg deployment) (headers cfg)])
      | Accepted fs \<Rightarrow>
          (case exchange messages session_id \<lparr>inbound = fs, outbound = []\<rparr> of
             (r, ws) \<Rightarrow>
               (r, Connect (ws_url cfg deployment) (headers cfg)
                     # map Send (outbound ws) @ [Close])))"

section \<open>The caller: one turn of the voice chat in \<^verbatim>\<open>main\<close>\<close>

text \<open>
  Lines 326 to 329: the inner loop over the content parts of one item stops at the first
  part of type \<^verbatim>\<open>audio\<close> and yields its transcript; \<open>None\<close> when it runs to the end.
\<close>

fun scan_content :: "json list \<Rightarrow> error + json option" where
  "scan_content [] = Inr None"
| "scan_content (content # contents) =
     (case dict_get content ''type'' JNull of
        Inl e \<Rightarrow> Inl e
      | Inr t \<Rightarrow>
          if t = JStr ''audio'' then
            (case dict_get content ''transcript'' (JStr []) of
               Inl e \<Rightarrow> Inl e
             | Inr transcript \<Rightarrow> Inr (Some transcript))
          else scan_content contents)"

text \<open>
  Lines 324 to 329: the outer loop over the output items, with the variable
  \<^verbatim>\<open>response\<close> threaded through. The \<^verbatim>\<open>break\<close> leaves the inner loop only, so the
  outer loop goes on to the next item after an assignment.
\<close>

fun scan_output :: "json list \<Rightarrow> json \<Rightarrow> error + json" where
  "scan_output [] response = Inr response"
| "scan_output (item # items) response =
     (case dict_get item ''type'' JNull of
        Inl e \<Rightarrow> Inl e
      | Inr t \<Rightarrow>
          if t = JStr ''message'' then
            (case dict_get item ''role'' JNull of
               Inl e \<Rightarrow> Inl e
             | Inr role \<Rightarrow>
                 if role = JStr ''assistant'' then
                   (case dict_get item ''content'' (JArr []) of
                      Inl e \<Rightarrow> Inl e
                    | Inr cv \<Rightarrow>
                        (case py_iter cv of
                           Inl e \<Rightarrow> Inl e
                         | Inr contents \<Rightarrow>
                             (case scan_content contents of
                                Inl e \<Rightarrow> Inl e
                              | Inr None \<Rightarrow> scan_output items response
                              | Inr (Some transcript) \<Rightarrow> scan_output items transcript)))
                 else scan_output items response)
          else scan_output items response)"

text \<open>Lines 323 to 332: what is printed, stored and spoken as the reply, or the exception.\<close>

definition extract_transcript :: "json \<Rightarrow> error + json" where
  "extract_transcript response =
     (case (if is_dict response then py_in ''output'' response else Inr False) of
        Inl e \<Rightarrow> Inl e
      | Inr has_output \<Rightarrow>
          (case (if has_output then
                   (case subscript response ''output'' of
                      Inl e \<Rightarrow> Inl e
                    | Inr output \<Rightarrow>
                        (case py_iter output of
                           Inl e \<Rightarrow> Inl e
                         | Inr items \<Rightarrow> scan_output items response))
                 else Inr response) of
             Inl e \<Rightarrow> Inl e
           | Inr response' \<Rightarrow> if \<not> truthy response' then Inl NoValidResponse else Inr response'))"

text \<open>
  Lines 316 to 332: the call with \<^verbatim>\<open>session_id = None\<close> and the extraction. An
  \<open>Inl\<close> is the exception that line 340 catches.
\<close>

definition execute_turn ::
    "config \<Rightarrow> string \<Rightarrow> json list \<Rightarrow> link \<Rightarrow> (error + json) \<times> action list" where
  "execute_turn cfg deployment conversation_history lnk =
     (case chat_completion cfg deployment conversation_history JNull lnk of
        (Inl e, acts) \<Rightarrow> (Inl e, acts)
      | (Inr response, acts) \<Rightarrow> (extract_transcript response, acts))"

section \<open>The voice chat loop of \<^verbatim>\<open>main\<close>\<close>

text \<open>
  Lines 278 to 360. The speech recogniser is an input: each round it gives a recognised
  text (\<^verbatim>\<open>result.text.strip()\<close>), no match, or a cancellation. Each call of
  \<^verbatim>\<open>chat_completion\<close> takes the next connection the network offers, refused when
  none is left. Printing and speech output are left out. The handlers of \<^verbatim>\<open>main\<close>
  catch \<^verbatim>\<open>Exception\<close>; \<^verbatim>\<open>asyncio.CancelledError\<close> is not one (it derives from
  \<^verbatim>\<open>BaseException\<close> since Python 3.8), so a cancelled call ends the loop. The result
  is the conversation history and the actions on the network when the loop ends or the
  recogniser has nothing more.
\<close>

datatype recognition = RecognizedSpeech string | NoMatch | Canceled

definition turn :: "string \<Rightarrow> json \<Rightarrow> json" where
  "turn role content = JObj [(''role'', JStr role), (''content'', content)]"

definition initial_history :: "json list" where
  "initial_history =
     [turn ''system''
        (JStr ''You are a helpful assistant. Keep your responses concise and natural.'')]"

text \<open>\<^verbatim>\<open>text.lower()\<close>, on the letters that matter for the comparison with \<^verbatim>\<open>"exit"\<close>.\<close>

definition lower :: "char \<Rightarrow> char" where
  "lower c =
     (case map_of (zip ''ABCDEFGHIJKLMNOPQRSTUVWXYZ'' ''abcdefghijklmnopqrstuvwxyz'') c of
        None \<Rightarrow> c
      | Some l \<Rightarrow> l)"

definition next_link :: "link list \<Rightarrow> link" where
  "next_link lnks = (case lnks of [] \<Rightarrow> Refused | l # _ \<Rightarrow> l)"

fun voice_loop ::
    "config \<Rightarrow> string \<Rightarrow> recognition list \<Rightarrow> link list \<Rightarrow> json list
       \<Rightarrow> json list \<times> action list" where
  "voice_loop cfg deployment [] lnks conversation_history = (conversation_history, [])"
| "voice_loop cfg deployment (NoMatch # rs) lnks conversation_history =
     voice_loop cfg deployment rs lnks conversation_history"
| "voice_loop cfg deployment (Canceled # rs) lnks conversation_history =
     voice_loop cfg deployment rs lnks conversation_history"
| "voice_loop cfg deployment (RecognizedSpeech text # rs) lnks conversation_history =
     (if text = [] then voice_loop cfg deployment rs lnks conversation_history
      else if map lower text = ''exit'' then (conversation_history, [])
      else
        (case execute_turn cfg deployment
                (conversation_history @ [turn ''user'' (JStr text)]) (next_link lnks) of
           (Inl e, acts) \<Rightarrow>
             if e = CancelledError then
               (conversation_history @ [turn ''user'' (JStr text)], acts)
             else
               (case voice_loop cfg deployment rs (drop 1 lnks)
                       (conversation_history @ [turn ''user'' (JStr text)]) of
                  (h, later) \<Rightarrow> (h, acts @ later))
         | (Inr response, acts) \<Rightarrow>
             (case voice_loop cfg deployment rs (drop 1 lnks)
                     (conversation_history @ [turn ''user'' (JStr text),
                                              turn ''assistant'' response]) of
                (h, later) \<Rightarrow> (h, acts @ later))))"

section \<open>Shapes of events and outputs that the statements name\<close>

text \<open>A handshake event the code accepts: type \<^verbatim>\<open>session.created\<close>, and a session payload that is absent or a dictionary.\<close>

fun is_session_created :: "json \<Rightarrow> bool" where
  "is_session_created (JObj kvs) =
     (map_of kvs ''type'' = Some (JStr ''session.created'')
      \<and> (case map_of kvs ''session'' of None \<Rightarrow> True | Some s \<Rightarrow> is_dict s))"
| "is_session_created _ = False"

text \<open>An event of type \<^verbatim>\<open>conversation.item.created\<close> without an \<^verbatim>\<open>error\<close> field.\<close>

fun is_item_created :: "json \<Rightarrow> bool" where
  "is_item_created (JObj kvs) =
     (''error'' \<notin> set (map fst kvs)
      \<and> map_of kvs ''type'' = Some (JStr ''conversation.item.created''))"
| "is_item_created _ = False"

text \<open>An intermediate stream event: no \<^verbatim>\<open>error\<close> field, and a type that is neither \<^verbatim>\<open>response.done\<close> nor \<^verbatim>\<open>error\<close>.\<close>

fun intermediate :: "json \<Rightarrow> bool" where
  "intermediate (JObj kvs) =
     (''error'' \<notin> set (map fst kvs)
      \<and> map_of kvs ''type'' \<noteq> Some (JStr ''response.done'')
      \<and> map_of kvs ''type'' \<noteq> Some (JStr ''error''))"
| "intermediate _ = False"

text \<open>An output item that is a dictionary but not a message of the assistant.\<close>

fun other_item :: "json \<Rightarrow> bool" where
  "other_item (JObj kvs) =
     (\<not> (map_of kvs ''type'' = Some (JStr ''message'')
         \<and> map_of kvs ''role'' = Some (JStr ''assistant'')))"
| "other_item _ = False"

text \<open>A content part that is a dictionary of a type other than \<^verbatim>\<open>audio\<close>.\<close>

fun other_part :: "json \<Rightarrow> bool" where
  "other_part (JObj kvs) = (map_of kvs ''type'' \<noteq> Some (JStr ''audio''))"
| "other_part _ = False"

definition input_text :: "json \<Rightarrow> json" where
  "input_text text = JObj [(''type'', JStr ''input_text''), (''text'', text)]"

text \<open>The texts recognised before the first \<^verbatim>\<open>exit\<close> that start a turn: the non-empty ones.\<close>

fun turns_taken :: "recognition list \<Rightarrow> nat" where
  "turns_taken [] = 0"
| "turns_taken (NoMatch # rs) = turns_taken rs"
| "turns_taken (Canceled # rs) = turns_taken rs"
| "turns_taken (RecognizedSpeech text # rs) =
     (if text = [] then turns_taken rs
      else if map lower text = ''exit'' then 0
      else Suc (turns_taken rs))"

definition connects :: "action list \<Rightarrow> nat" where
  "connects acts = length (filter (\<lambda>a. case a of Connect u h \<Rightarrow> True | _ \<Rightarrow> False) acts)"

definition closes :: "action list \<Rightarrow> nat" where
  "closes acts = length (filter (\<lambda>a. a = Close) acts)"

text \<open>A connection that is accepted and on which the task is never cancelled.\<close>

fun served :: "link \<Rightarrow> bool" where
  "served (Accepted fs) = (Cancelled \<notin> set fs)"
| "served Refused = False"

section \<open>Example data\<close>

definition example_config :: config where
  "example_config = \<lparr>endpoint = ''https://example.openai.azure.com'', api_key = ''secret''\<rparr>"

definition session_s1 :: json where
  "session_s1 =
     JObj [(''type'', JStr ''session.created''), (''session'', JObj [(''id'', JStr ''s1'')])]"

definition item_ok :: json where
  "item_ok = JObj [(''type'', JStr ''conversation.item.created'')]"

definition delta :: json where
  "delta = JObj [(''type'', JStr ''response.audio_transcript.delta''), (''delta'', JStr ''Hel'')]"

definition rate_limited :: json where
  "rate_limited = JObj [(''message'', JStr ''rate limited'')]"

definition assistant_message :: "json list \<Rightarrow> json" where
  "assistant_message parts =
     JObj [(''type'', JStr ''message''), (''role'', JStr ''assistant''), (''content'', JArr parts)]"

definition response_done :: "json list \<Rightarrow> json" where
  "response_done items =
     JObj [(''type'', JStr ''response.done''), (''response'', JObj [(''output'', JArr items)])]"

section \<open>Evaluation rules and basic facts\<close>

lemmas run_defs =
  chat_completion_def exchange_def handshake_def receive_message_def send_message_def
  session_created_def item_created_def stream_events_def execute_turn_def
  extract_transcript_def create_item_request_def response_request_def input_text_def

lemmas example_defs =
  session_s1_def item_ok_def delta_def rate_limited_def assistant_message_def
  response_done_def turn_def initial_history_def

lemma key_present: "map_of kvs k = Some v \<Longrightarrow> k \<in> set (map fst kvs)"
  by (metis map_of_eq_None_iff option.distinct(1) set_map)

lemma is_dict_iff: "is_dict s \<longleftrightarrow> (\<exists>kvs. s = JObj kvs)"
  by (cases s) auto

lemma session_created_ok:
  "is_session_created hs \<Longrightarrow> \<exists>sid. session_created hs = Inr sid"
  by (cases hs) (auto simp: session_created_def is_dict_iff split: option.splits)

lemma item_created_ok: "is_item_created ic \<Longrightarrow> item_created ic = Inr ()"
  by (cases ic) (auto simp: item_created_def)

lemma item_created_error:
  "map_of kvs ''error'' = Some d \<Longrightarrow> item_created (JObj kvs) = Inl (ItemCreationError d)"
  using key_present[of kvs "''error''" d] by (simp add: item_created_def)

lemma item_created_no_error:
  "''error'' \<notin> set (map fst kvs) \<Longrightarrow>
   item_created (JObj kvs) =
     (if map_of kvs ''type'' = Some (JStr ''conversation.item.created'') then Inr ()
      else Inl ExpectedItemCreated)"
  by (auto simp: item_created_def split: option.splits)

lemma stream_loop_intermediate:
  "list_all intermediate mids \<Longrightarrow> stream_loop (map Msg mids @ fs) = stream_loop fs"
proof (induction mids)
  case Nil
  then show ?case by simp
next
  case (Cons ev mids)
  then show ?case by (cases ev) (auto split: option.splits)
qed

lemma stream_loop_error_field:
  "map_of kvs ''error'' = Some d \<Longrightarrow> stream_loop (Msg (JObj kvs) # rest) = (Inl (ApiError d), rest)"
  using key_present[of kvs "''error''" d] by simp

lemma stream_loop_done:
  assumes "''error'' \<notin> set (map fst dkvs)"
    and "map_of dkvs ''type'' = Some (JStr ''response.done'')"
    and "map_of dkvs ''response'' = Some r"
  shows "stream_loop (Msg (JObj dkvs) # rest) = (Inr r, rest)"
  using assms by simp

lemma content_messages_texts:
  "map (\<lambda>m. subscript m ''content'') messages = map Inr texts \<Longrightarrow>
   content_messages messages = Inr (map input_text texts)"
proof (induction messages arbitrary: texts)
  case Nil
  then show ?case by simp
next
  case (Cons m messages)
  then obtain t ts where "texts = t # ts" by (cases texts) auto
  with Cons show ?case by (simp add: input_text_def)
qed

section \<open>The exchange up to the stream\<close>

lemma chat_completion_item_reply:
  assumes "is_session_created hs" and "content_messages messages = Inr parts"
  shows "chat_completion cfg dep messages sid (Accepted (Msg hs # Msg ev # rest)) =
           (case item_created ev of
              Inl e \<Rightarrow>
                (Inl e, [Connect (ws_url cfg dep) (headers cfg),
                         Send (create_item_request parts), Close])
            | Inr u \<Rightarrow>
                (fst (stream_loop rest),
                 [Connect (ws_url cfg dep) (headers cfg),
                  Send (create_item_request parts), Send response_request, Close]))"
proof -
  obtain s where "session_created hs = Inr s" using assms(1) session_created_ok by blast
  then show ?thesis using assms(2)
    by (simp add: chat_completion_def exchange_def handshake_def receive_message_def
        send_message_def stream_events_def split: sum.splits prod.splits)
qed

lemma chat_completion_stream:
  assumes "is_session_created hs" and "content_messages messages = Inr parts"
    and "is_item_created ic" and "list_all intermediate mids"
  shows "chat_completion cfg dep messages sid (Accepted (Msg hs # Msg ic # map Msg mids @ fs)) =
           (fst (stream_loop fs),
            [Connect (ws_url cfg dep) (headers cfg), Send (create_item_request parts),
             Send response_request, Close])"
  using chat_completion_item_reply[OF assms(1,2), of cfg dep sid ic "map Msg mids @ fs"]
    item_created_ok[OF assms(3)] stream_loop_intermediate[OF assms(4), of fs]
  by simp

lemma exchange_outbound:
  assumes "is_session_created hs" and "content_messages messages = Inr parts"
  shows "\<exists>later. outbound (snd (exchange messages sid \<lparr>inbound = Msg hs # fs, outbound = []\<rparr>))
            = create_item_request parts # later"
proof -
  obtain s where "session_created hs = Inr s" using assms(1) session_created_ok by blast
  then show ?thesis using assms(2)
    by (auto simp: exchange_def handshake_def receive_message_def send_message_def
        stream_events_def split: sum.splits prod.splits list.splits frame.splits)
qed

section \<open>The reply of a turn\<close>

lemma scan_content_first_audio:
  assumes "list_all other_part ps" and "map_of akvs ''type'' = Some (JStr ''audio'')"
  shows "scan_content (ps @ JObj akvs # qs) =
           Inr (Some (case map_of akvs ''transcript'' of None \<Rightarrow> JStr [] | Some v \<Rightarrow> v))"
  using assms
proof (induction ps)
  case Nil
  then show ?case by simp
next
  case (Cons p ps)
  then show ?case by (cases p) (auto split: option.splits)
qed

lemma scan_output_others:
  "list_all other_item items \<Longrightarrow> scan_output (items @ later) r = scan_output later r"
proof (induction items)
  case Nil
  then show ?case by simp
next
  case (Cons i items)
  then show ?case by (cases i) (auto split: option.splits)
qed

lemma scan_output_assistant:
  assumes "map_of mkvs ''type'' = Some (JStr ''message'')"
    and "map_of mkvs ''role'' = Some (JStr ''assistant'')"
    and "map_of mkvs ''content'' = Some (JArr parts)"
    and "scan_content parts = Inr (Some v)"
  shows "scan_output (JObj mkvs # later) r = scan_output later v"
  using assms by simp

lemma extract_transcript_single:
  assumes "map_of rkvs ''output'' = Some (JArr (before @ JObj mkvs # after))"
    and "list_all other_item before" and "list_all other_item after"
    and "map_of mkvs ''type'' = Some (JStr ''message'')"
    and "map_of mkvs ''role'' = Some (JStr ''assistant'')"
    and "map_of mkvs ''content'' = Some (JArr (ps @ JObj akvs # qs))"
    and "list_all other_part ps"
    and "map_of akvs ''type'' = Some (JStr ''audio'')"
    and "map_of akvs ''transcript'' = Some v"
  shows "extract_transcript (JObj rkvs) = (if truthy v then Inr v else Inl NoValidResponse)"
proof -
  have c: "scan_content (ps @ JObj akvs # qs) = Inr (Some v)"
    using scan_content_first_audio[OF assms(7,8), of qs] assms(9) by simp
  have "scan_output (before @ JObj mkvs # after) (JObj rkvs) = scan_output (after @ []) v"
    using scan_output_others[OF assms(2), of "JObj mkvs # after" "JObj rkvs"]
      scan_output_assistant[OF assms(4,5,6) c, of after "JObj rkvs"]
    by simp
  then have "scan_output (before @ JObj mkvs # after) (JObj rkvs) = Inr v"
    using scan_output_others[OF assms(3), of "[]" v] by simp
  then show ?thesis
    using assms(1) key_present[OF assms(1)]
    by (simp add: extract_transcript_def)
qed

text \<open>
  Claim C1, as the code has it. The events are \<^verbatim>\<open>session.created\<close>,
  \<^verbatim>\<open>conversation.item.created\<close>, any number of intermediate events, and a
  \<^verbatim>\<open>response.done\<close> event whose output holds exactly one message of the assistant
  among items that are dictionaries. Then the turn returns the transcript of the first
  content part of type \<^verbatim>\<open>audio\<close> of that message, when the parts before it are
  dictionaries of other types and the transcript is a non-empty string; the two messages
  sent are the item request and the response request. Parts of type \<^verbatim>\<open>text\<close> are
  not read.
\<close>

theorem first_audio_transcript_returned:
  assumes "is_session_created hs" and "content_messages messages = Inr parts"
    and "is_item_created ic" and "list_all intermediate mids"
    and "''error'' \<notin> set (map fst dkvs)"
    and "map_of dkvs ''type'' = Some (JStr ''response.done'')"
    and "map_of dkvs ''response'' = Some (JObj rkvs)"
    and "map_of rkvs ''output'' = Some (JArr (before @ JObj mkvs # after))"
    and "list_all other_item before" and "list_all other_item after"
    and "map_of mkvs ''type'' = Some (JStr ''message'')"
    and "map_of mkvs ''role'' = Some (JStr ''assistant'')"
    and "map_of mkvs ''content'' = Some (JArr (ps @ JObj akvs # qs))"
    and "list_all other_part ps"
    and "map_of akvs ''type'' = Some (JStr ''audio'')"
    and "map_of akvs ''transcript'' = Some (JStr t)"
    and "t \<noteq> []"
  shows "execute_turn cfg dep messages
           (Accepted (Msg hs # Msg ic # map Msg mids @ Msg (JObj dkvs) # rest)) =
           (Inr (JStr t),
            [Connect (ws_url cfg dep) (headers cfg), Send (create_item_request parts),
             Send response_request, Close])"
proof -
  have "chat_completion cfg dep messages JNull
          (Accepted (Msg hs # Msg ic # map Msg mids @ Msg (JObj dkvs) # rest)) =
          (Inr (JObj rkvs),
           [Connect (ws_url cfg dep) (headers cfg), Send (create_item_request parts),
            Send response_request, Close])"
    by (simp add: chat_completion_stream[OF assms(1-4)] stream_loop_done[OF assms(5-7)]
          del: stream_loop.simps)
  moreover have "extract_transcript (JObj rkvs) = Inr (JStr t)"
    using extract_transcript_single[OF assms(8-16)] assms(17) by simp
  ultimately show ?thesis
    by (simp add: execute_turn_def)
qed

theorem first_audio_transcript_returned_witness:
  "execute_turn example_config ''gpt'' [turn ''user'' (JStr ''hi'')]
     (Accepted [Msg session_s1, Msg item_ok, Msg delta,
                Msg (response_done
                       [JObj [(''type'', JStr ''function_call'')],
                        assistant_message
                          [JObj [(''type'', JStr ''text''), (''text'', JStr ''aside'')],
                           JObj [(''type'', JStr ''audio''), (''transcript'', JStr ''Hello!'')],
                           JObj [(''type'', JStr ''audio''), (''transcript'', JStr ''again'')]]]),
                Msg delta]) =
     (Inr (JStr ''Hello!''),
      [Connect (ws_url example_config ''gpt'') (headers example_config),
       Send (create_item_request [input_text (JStr ''hi'')]), Send response_request, Close])"
proof -
  have hs: "is_session_created session_s1" by (simp add: session_s1_def)
  have parts: "content_messages [turn ''user'' (JStr ''hi'')] = Inr [input_text (JStr ''hi'')]"
    by (simp add: turn_def input_text_def)
  have ic: "is_item_created item_ok" by (simp add: item_ok_def)
  have mids: "list_all intermediate [delta]" by (simp add: delta_def)
  show ?thesis
    using first_audio_transcript_returned[OF hs parts ic mids,
            where dkvs = "[(''type'', JStr ''response.done''),
                           (''response'', JObj [(''output'', JArr
                              [JObj [(''type'', JStr ''function_call'')],
                               assistant_message
                                 [JObj [(''type'', JStr ''text''), (''text'', JStr ''aside'')],
                                  JObj [(''type'', JStr ''audio''), (''transcript'', JStr ''Hello!'')],
                                  JObj [(''type'', JStr ''audio''), (''transcript'', JStr ''again'')]]])])]"
              and rkvs = "[(''output'', JArr
                              [JObj [(''type'', JStr ''function_call'')],
                               assistant_message
                                 [JObj [(''type'', JStr ''text''), (''text'', JStr ''aside'')],
                                  JObj [(''type'', JStr ''audio''), (''transcript'', JStr ''Hello!'')],
                                  JObj [(''type'', JStr ''audio''), (''transcript'', JStr ''again'')]]])]"
              and before = "[JObj [(''type'', JStr ''function_call'')]]"
              and after = "[]"
              and mkvs = "[(''type'', JStr ''message''), (''role'', JStr ''assistant''),
                           (''content'', JArr
                                 [JObj [(''type'', JStr ''text''), (''text'', JStr ''aside'')],
                                  JObj [(''type'', JStr ''audio''), (''transcript'', JStr ''Hello!'')],
                                  JObj [(''type'', JStr ''audio''), (''transcript'', JStr ''again'')]])]"
              and ps = "[JObj [(''type'', JStr ''text''), (''text'', JStr ''aside'')]]"
              and akvs = "[(''type'', JStr ''audio''), (''transcript'', JStr ''Hello!'')]"
              and qs = "[JObj [(''type'', JStr ''audio''), (''transcript'', JStr ''again'')]]"
              and t = "''Hello!''"
              and cfg = example_config and dep = "''gpt''" and rest = "[Msg delta]"]
    by (simp add: response_done_def assistant_message_def)
qed

text \<open>
  Claim C1 as stated fails: when the first content part of the assistant's message is a
  \<^verbatim>\<open>text\<close> part holding \<^verbatim>\<open>Hello!\<close>, the turn does not return \<^verbatim>\<open>Hello!\<close>;
  the variable \<^verbatim>\<open>response\<close> still holds the response payload.
\<close>

theorem text_part_counterexample:
  "fst (execute_turn example_config ''gpt'' [turn ''user'' (JStr ''hi'')]
         (Accepted [Msg session_s1, Msg item_ok,
                    Msg (response_done
                           [assistant_message
                              [JObj [(''type'', JStr ''text''), (''text'', JStr ''Hello!'')]]])])) =
     Inr (JObj [(''output'',
                 JArr [assistant_message
                         [JObj [(''type'', JStr ''text''), (''text'', JStr ''Hello!'')]]])])
   \<and> fst (execute_turn example_config ''gpt'' [turn ''user'' (JStr ''hi'')]
         (Accepted [Msg session_s1, Msg item_ok,
                    Msg (response_done
                           [assistant_message
                              [JObj [(''type'', JStr ''text''), (''text'', JStr ''Hello!'')]]])])) \<noteq>
     Inr (JStr ''Hello!'')"
  by (simp add: run_defs example_defs)

text \<open>
  With two messages of the assistant in the output the transcript of the later one is
  returned: the \<^verbatim>\<open>break\<close> at line 329 leaves the inner loop only.
\<close>

lemma later_assistant_message_overwrites:
  "fst (execute_turn example_config ''gpt'' [turn ''user'' (JStr ''hi'')]
         (Accepted [Msg session_s1, Msg item_ok,
                    Msg (response_done
                           [assistant_message
                              [JObj [(''type'', JStr ''audio''), (''transcript'', JStr ''first'')]],
                            assistant_message
                              [JObj [(''type'', JStr ''audio''), (''transcript'', JStr ''second'')]]])])) =
     Inr (JStr ''second'')"
  by (simp add: run_defs example_defs)

section \<open>The connection closing during the stream\<close>

text \<open>
  Claim C2, as the code has it. When the connection closes while the stream is read,
  after \<^verbatim>\<open>session.created\<close>, \<^verbatim>\<open>conversation.item.created\<close> and intermediate
  events only, \<^verbatim>\<open>chat_completion\<close> returns \<^verbatim>\<open>None\<close> without raising, and the
  caller's extraction then fails the turn with the exception "No valid response
  received", the same one an empty response raises. The turn yields no reply on this path.
\<close>

theorem closed_stream_no_valid_response:
  assumes "is_session_created hs" and "content_messages messages = Inr parts"
    and "is_item_created ic" and "list_all intermediate mids"
  shows "fst (chat_completion cfg dep messages sid (Accepted (Msg hs # Msg ic # map Msg mids)))
           = Inr JNull
       \<and> fst (execute_turn cfg dep messages (Accepted (Msg hs # Msg ic # map Msg mids)))
           = Inl NoValidResponse"
  using chat_completion_stream[OF assms, of cfg dep _ "[]"]
  by (simp add: execute_turn_def extract_transcript_def)

theorem closed_stream_no_valid_response_witness:
  "fst (chat_completion example_config ''gpt'' [turn ''user'' (JStr ''hi'')] JNull
          (Accepted [Msg session_s1, Msg item_ok, Msg delta, Msg delta])) = Inr JNull
   \<and> fst (execute_turn example_config ''gpt'' [turn ''user'' (JStr ''hi'')]
          (Accepted [Msg session_s1, Msg item_ok, Msg delta, Msg delta])) = Inl NoValidResponse"
proof -
  have hs: "is_session_created session_s1" by (simp add: session_s1_def)
  have parts: "content_messages [turn ''user'' (JStr ''hi'')] = Inr [input_text (JStr ''hi'')]"
    by (simp add: turn_def input_text_def)
  have ic: "is_item_created item_ok" by (simp add: item_ok_def)
  have mids: "list_all intermediate [delta, delta]" by (simp add: delta_def)
  show ?thesis
    using closed_stream_no_valid_response[OF hs parts ic mids,
            where cfg = example_config and dep = "''gpt''" and sid = JNull]
    by simp
qed

text \<open>
  Claim C2 as stated fails: on a connection that closes during the stream the call returns
  \<^verbatim>\<open>None\<close>, a value and not an error, and the failure of the turn is not the
  connection-closed error.
\<close>

theorem connection_closed_counterexample:
  "fst (chat_completion example_config ''gpt'' [turn ''user'' (JStr ''hi'')] JNull
          (Accepted [Msg session_s1, Msg item_ok, Msg delta])) = Inr JNull
   \<and> fst (execute_turn example_config ''gpt'' [turn ''user'' (JStr ''hi'')]
            (Accepted [Msg session_s1, Msg item_ok, Msg delta])) \<noteq> Inl ConnectionClosed"
  by (simp add: run_defs example_defs)

section \<open>The content of the item request\<close>

text \<open>
  Claim C3, as the code has it. The item request carries one input-text part for every
  message of the conversation list, in order, each holding that message's content: when
  \<^verbatim>\<open>msg["content"]\<close> of the messages are \<open>texts\<close>, the first message sent after a
  good handshake is the \<^verbatim>\<open>conversation.item.create\<close> event for a message of role
  \<^verbatim>\<open>user\<close> whose content list is, for each of \<open>texts\<close> in order, the part
  \<^verbatim>\<open>{"type": "input_text", "text": ...}\<close>. The latest user message is the last part.
\<close>

theorem item_carries_every_turn:
  assumes "is_session_created hs"
    and "map (\<lambda>m. subscript m ''content'') messages = map Inr texts"
  shows "length texts = length messages
       \<and> (\<exists>later. snd (chat_completion cfg dep messages sid (Accepted (Msg hs # fs))) =
             Connect (ws_url cfg dep) (headers cfg)
               # Send (JObj [(''type'', JStr ''conversation.item.create''),
                             (''item'',
                              JObj [(''type'', JStr ''message''),
                                    (''role'', JStr ''user''),
                                    (''content'',
                                     JArr (map (\<lambda>t. JObj [(''type'', JStr ''input_text''),
                                                              (''text'', t)]) texts))])])
               # later)"
proof -
  have "length texts = length messages"
    using assms(2) by (metis length_map)
  moreover obtain later where
    "outbound (snd (exchange messages sid \<lparr>inbound = Msg hs # fs, outbound = []\<rparr>))
       = create_item_request (map input_text texts) # later"
    using exchange_outbound[OF assms(1) content_messages_texts[OF assms(2)]] by blast
  moreover have "map input_text texts =
      map (\<lambda>t. JObj [(''type'', JStr ''input_text''), (''text'', t)]) texts"
    by (simp add: input_text_def)
  ultimately show ?thesis
    by (cases "exchange messages sid \<lparr>inbound = Msg hs # fs, outbound = []\<rparr>")
       (simp add: chat_completion_def create_item_request_def)
qed

theorem item_carries_every_turn_witness:
  "\<exists>later. snd (chat_completion example_config ''gpt''
                   (initial_history @ [turn ''user'' (JStr ''hi'')]) JNull
                   (Accepted [Msg session_s1])) =
     Connect (ws_url example_config ''gpt'') (headers example_config)
       # Send (JObj [(''type'', JStr ''conversation.item.create''),
                     (''item'',
                      JObj [(''type'', JStr ''message''),
                            (''role'', JStr ''user''),
                            (''content'',
                             JArr [JObj [(''type'', JStr ''input_text''),
                                         (''text'', JStr ''You are a helpful assistant. Keep your responses concise and natural.'')],
                                   JObj [(''type'', JStr ''input_text''),
                                         (''text'', JStr ''hi'')]])])])
       # later"
  using item_carries_every_turn[where hs = session_s1
          and messages = "initial_history @ [turn ''user'' (JStr ''hi'')]"
          and texts = "[JStr ''You are a helpful assistant. Keep your responses concise and natural.'',
                        JStr ''hi'']"
          and cfg = example_config and dep = "''gpt''" and sid = JNull and fs = "[]"]
  by (simp add: example_defs)

text \<open>
  Claim C3 as stated fails: for the history the voice chat builds for its first turn, the
  system prompt and the user's text \<^verbatim>\<open>hi\<close>, the content list sent has two parts;
  the event sent is not the one with the single part for \<^verbatim>\<open>hi\<close>.
\<close>

theorem only_latest_turn_counterexample:
  "snd (chat_completion example_config ''gpt''
          (initial_history @ [turn ''user'' (JStr ''hi'')]) JNull
          (Accepted [Msg session_s1, Msg item_ok])) =
     [Connect (ws_url example_config ''gpt'') (headers example_config),
      Send (JObj [(''type'', JStr ''conversation.item.create''),
                  (''item'',
                   JObj [(''type'', JStr ''message''),
                         (''role'', JStr ''user''),
                         (''content'',
                          JArr [JObj [(''type'', JStr ''input_text''),
                                      (''text'', JStr ''You are a helpful assistant. Keep your responses concise and natural.'')],
                                JObj [(''type'', JStr ''input_text''),
                                      (''text'', JStr ''hi'')]])])]),
      Send (JObj [(''type'', JStr ''response.create''), (''response'', JObj [])]),
      Close]
   \<and> snd (chat_completion example_config ''gpt''
          (initial_history @ [turn ''user'' (JStr ''hi'')]) JNull
          (Accepted [Msg session_s1, Msg item_ok])) ! 1 \<noteq>
      Send (JObj [(''type'', JStr ''conversation.item.create''),
                  (''item'',
                   JObj [(''type'', JStr ''message''),
                         (''role'', JStr ''user''),
                         (''content'',
                          JArr [JObj [(''type'', JStr ''input_text''),
                                      (''text'', JStr ''hi'')]])])])"
  by (simp add: run_defs example_defs)

section \<open>Events with an error field\<close>

text \<open>
  Claim C4, as the code has it. After a good handshake, an event with an \<^verbatim>\<open>error\<close>
  field ends the turn whatever its type: as the answer to the item request it raises the
  item creation error with the error detail, and only the item request has been sent; in
  the stream, after \<^verbatim>\<open>conversation.item.created\<close> and intermediate events, it raises
  the API error with the error detail, and only the item request and the response request
  have been sent. The events after it are not read and nothing more is sent.
\<close>

theorem error_field_terminal:
  assumes "is_session_created hs" and "content_messages messages = Inr parts"
    and "map_of kvs ''error'' = Some d"
  shows "execute_turn cfg dep messages (Accepted (Msg hs # Msg (JObj kvs) # rest)) =
           (Inl (ItemCreationError d),
            [Connect (ws_url cfg dep) (headers cfg), Send (create_item_request parts), Close])
       \<and> (is_item_created ic \<and> list_all intermediate mids \<longrightarrow>
            execute_turn cfg dep messages
              (Accepted (Msg hs # Msg ic # map Msg mids @ Msg (JObj kvs) # rest)) =
              (Inl (ApiError d),
               [Connect (ws_url cfg dep) (headers cfg), Send (create_item_request parts),
                Send response_request, Close]))"
proof -
  have "chat_completion cfg dep messages JNull (Accepted (Msg hs # Msg (JObj kvs) # rest)) =
          (Inl (ItemCreationError d),
           [Connect (ws_url cfg dep) (headers cfg), Send (create_item_request parts), Close])"
    by (simp add: chat_completion_item_reply[OF assms(1,2)] item_created_error[OF assms(3)])
  moreover have "chat_completion cfg dep messages JNull
                   (Accepted (Msg hs # Msg ic # map Msg mids @ Msg (JObj kvs) # rest)) =
          (Inl (ApiError d),
           [Connect (ws_url cfg dep) (headers cfg), Send (create_item_request parts),
            Send response_request, Close])"
    if "is_item_created ic" and "list_all intermediate mids"
    by (simp add: chat_completion_stream[OF assms(1,2) that] stream_loop_error_field[OF assms(3)]
          del: stream_loop.simps)
  ultimately show ?thesis
    by (simp add: execute_turn_def)
qed

theorem error_field_terminal_witness:
  "execute_turn example_config ''gpt'' [turn ''user'' (JStr ''hi'')]
     (Accepted [Msg session_s1, Msg (JObj [(''type'', JStr ''conversation.item.created''),
                                          (''error'', rate_limited)]), Msg delta]) =
     (Inl (ItemCreationError rate_limited),
      [Connect (ws_url example_config ''gpt'') (headers example_config),
       Send (create_item_request [input_text (JStr ''hi'')]), Close])
   \<and> execute_turn example_config ''gpt'' [turn ''user'' (JStr ''hi'')]
        (Accepted [Msg session_s1, Msg item_ok, Msg delta,
                   Msg (JObj [(''type'', JStr ''response.done''), (''error'', rate_limited)]),
                   Msg delta]) =
        (Inl (ApiError rate_limited),
         [Connect (ws_url example_config ''gpt'') (headers example_config),
          Send (create_item_request [input_text (JStr ''hi'')]), Send response_request, Close])"
proof -
  have hs: "is_session_created session_s1" by (simp add: session_s1_def)
  have parts: "content_messages [turn ''user'' (JStr ''hi'')] = Inr [input_text (JStr ''hi'')]"
    by (simp add: turn_def input_text_def)
  have ic: "is_item_created item_ok \<and> list_all intermediate [delta]"
    by (simp add: item_ok_def delta_def)
  show ?thesis
    using error_field_terminal[OF hs parts,
            where kvs = "[(''type'', JStr ''conversation.item.created''), (''error'', rate_limited)]"
              and d = rate_limited and cfg = example_config and dep = "''gpt''"
              and rest = "[Msg delta]"]
      error_field_terminal[OF hs parts,
            where kvs = "[(''type'', JStr ''response.done''), (''error'', rate_limited)]"
              and d = rate_limited and cfg = example_config and dep = "''gpt''"
              and rest = "[Msg delta]" and ic = item_ok and mids = "[delta]"]
      ic
    by simp
qed

text \<open>
  Claim C4 as stated fails: an \<^verbatim>\<open>error\<close> field on the handshake event is not
  looked at when the type is \<^verbatim>\<open>session.created\<close>; both requests are sent after it
  and the turn returns a reply.
\<close>

theorem error_on_handshake_counterexample:
  "execute_turn example_config ''gpt'' [turn ''user'' (JStr ''hi'')]
     (Accepted [Msg (JObj [(''type'', JStr ''session.created''),
                           (''session'', JObj [(''id'', JStr ''s1'')]),
                           (''error'', rate_limited)]),
                Msg item_ok,
                Msg (response_done
                       [assistant_message
                          [JObj [(''type'', JStr ''audio''), (''transcript'', JStr ''Hello!'')]]])]) =
     (Inr (JStr ''Hello!''),
      [Connect (ws_url example_config ''gpt'') (headers example_config),
       Send (create_item_request [input_text (JStr ''hi'')]),
       Send response_request,
       Close])"
  by (simp add: run_defs example_defs)

section \<open>A response without a message of the assistant\<close>

text \<open>
  Claim C5 at the input \<^verbatim>\<open>{"type":"response.done","response":{"output":[]}}\<close>:
  the turn does not fail; the response payload itself is what the caller prints, stores in
  the history and speaks as the reply, because the test \<^verbatim>\<open>not response\<close> at line 331
  sees a non-empty dictionary.
\<close>

theorem empty_output_is_the_reply:
  "execute_turn example_config ''gpt'' [turn ''user'' (JStr ''hi'')]
     (Accepted [Msg session_s1, Msg item_ok, Msg (response_done [])]) =
     (Inr (JObj [(''output'', JArr [])]),
      [Connect (ws_url example_config ''gpt'') (headers example_config),
       Send (create_item_request [input_text (JStr ''hi'')]),
       Send response_request,
       Close])"
  by (simp add: run_defs example_defs)

section \<open>The handshake\<close>

lemma handshake_wrong_type:
  "map_of kvs ''type'' \<noteq> Some (JStr ''session.created'') \<Longrightarrow>
   session_created (JObj kvs) = Inl (ExpectedSessionCreated (JObj kvs))"
  by (auto simp: session_created_def split: option.splits)

text \<open>
  Claim C6. After the connection is opened exactly one event is read. When the event is a
  dictionary whose type is not \<^verbatim>\<open>session.created\<close>, the handshake fails with the
  exception that carries the raw event and the frames after it are left unread; the call
  of \<^verbatim>\<open>chat_completion\<close> ends with that exception, having sent nothing. When the
  type is \<^verbatim>\<open>session.created\<close> and the session payload is a dictionary, the session
  id is the \<^verbatim>\<open>id\<close> entry of that payload (\<^verbatim>\<open>None\<close> when it has none), and the
  call goes on: with that event as the only one, it sends the item request and meets the
  closed connection at its second receive. With no event at all the first receive meets
  the closed connection. For the first event
  \<^verbatim>\<open>{"type":"session.created","session":{"id":"s1"}}\<close> the id is \<^verbatim>\<open>"s1"\<close>.
\<close>

theorem handshake_classifies:
  "(map_of kvs ''type'' \<noteq> Some (JStr ''session.created'') \<longrightarrow>
      handshake \<lparr>inbound = Msg (JObj kvs) # rest, outbound = out\<rparr> =
        (Inl (ExpectedSessionCreated (JObj kvs)), \<lparr>inbound = rest, outbound = out\<rparr>)
      \<and> chat_completion cfg dep messages sid (Accepted (Msg (JObj kvs) # rest)) =
        (Inl (ExpectedSessionCreated (JObj kvs)),
         [Connect (ws_url cfg dep) (headers cfg), Close]))
   \<and> (map_of kvs ''type'' = Some (JStr ''session.created'')
        \<and> map_of kvs ''session'' = Some (JObj skvs) \<longrightarrow>
      handshake \<lparr>inbound = Msg (JObj kvs) # rest, outbound = out\<rparr> =
        (Inr (case map_of skvs ''id'' of None \<Rightarrow> JNull | Some i \<Rightarrow> i),
         \<lparr>inbound = rest, outbound = out\<rparr>)
      \<and> (content_messages messages = Inr parts \<longrightarrow>
           chat_completion cfg dep messages sid (Accepted [Msg (JObj kvs)]) =
             (Inl ConnectionClosed,
              [Connect (ws_url cfg dep) (headers cfg),
               Send (JObj [(''type'', JStr ''conversation.item.create''),
                        (''item'',
                         JObj [(''type'', JStr ''message''), (''role'', JStr ''user''),
                               (''content'', JArr parts)])]),
               Close])))
   \<and> chat_completion cfg dep messages sid (Accepted []) =
        (Inl ConnectionClosed, [Connect (ws_url cfg dep) (headers cfg), Close])
   \<and> handshake
        \<lparr>inbound = Msg (JObj [(''type'', JStr ''session.created''),
                              (''session'', JObj [(''id'', JStr ''s1'')])]) # rest,
         outbound = out\<rparr> =
        (Inr (JStr ''s1''), \<lparr>inbound = rest, outbound = out\<rparr>)"
proof -
  have bad: "chat_completion cfg dep messages sid (Accepted (Msg (JObj kvs) # rest)) =
        (Inl (ExpectedSessionCreated (JObj kvs)),
         [Connect (ws_url cfg dep) (headers cfg), Close])"
    if "map_of kvs ''type'' \<noteq> Some (JStr ''session.created'')"
    using handshake_wrong_type[OF that]
    by (simp add: chat_completion_def exchange_def handshake_def receive_message_def)
  have good: "chat_completion cfg dep messages sid (Accepted [Msg (JObj kvs)]) =
             (Inl ConnectionClosed,
              [Connect (ws_url cfg dep) (headers cfg),
               Send (JObj [(''type'', JStr ''conversation.item.create''),
                        (''item'',
                         JObj [(''type'', JStr ''message''), (''role'', JStr ''user''),
                               (''content'', JArr parts)])]),
               Close])"
    if "map_of kvs ''type'' = Some (JStr ''session.created'')"
      and "map_of kvs ''session'' = Some (JObj skvs)"
      and "content_messages messages = Inr parts"
    using that
    by (simp add: chat_completion_def exchange_def handshake_def receive_message_def
        send_message_def session_created_def create_item_request_def)
  have none: "chat_completion cfg dep messages sid (Accepted []) =
        (Inl ConnectionClosed, [Connect (ws_url cfg dep) (headers cfg), Close])"
    by (simp add: chat_completion_def exchange_def handshake_def receive_message_def)
  have hs: "handshake \<lparr>inbound = Msg (JObj kvs) # rest, outbound = out\<rparr> =
        (session_created (JObj kvs), \<lparr>inbound = rest, outbound = out\<rparr>)" for kvs
    by (simp add: handshake_def receive_message_def)
  show ?thesis
    using bad good none
    by (auto simp: hs handshake_wrong_type session_created_def split: option.splits)
qed

theorem handshake_classifies_witness:
  "chat_completion example_config ''gpt'' [turn ''user'' (JStr ''hi'')] JNull
     (Accepted [Msg (JObj [(''type'', JStr ''error'')]), Msg item_ok]) =
     (Inl (ExpectedSessionCreated (JObj [(''type'', JStr ''error'')])),
      [Connect (ws_url example_config ''gpt'') (headers example_config), Close])
   \<and> handshake \<lparr>inbound = [Msg (JObj [(''type'', JStr ''error'')]), Msg item_ok], outbound = []\<rparr> =
     (Inl (ExpectedSessionCreated (JObj [(''type'', JStr ''error'')])),
      \<lparr>inbound = [Msg item_ok], outbound = []\<rparr>)
   \<and> handshake
        \<lparr>inbound = [Msg (JObj [(''type'', JStr ''session.created''),
                               (''session'', JObj [(''name'', JStr ''n'')])])],
         outbound = []\<rparr> =
     (Inr JNull, \<lparr>inbound = [], outbound = []\<rparr>)
   \<and> chat_completion example_config ''gpt'' [turn ''user'' (JStr ''hi'')] JNull
        (Accepted [Msg (JObj [(''type'', JStr ''session.created''),
                              (''session'', JObj [(''name'', JStr ''n'')])])]) =
     (Inl ConnectionClosed,
      [Connect (ws_url example_config ''gpt'') (headers example_config),
       Send (JObj [(''type'', JStr ''conversation.item.create''),
                   (''item'',
                    JObj [(''type'', JStr ''message''), (''role'', JStr ''user''),
                          (''content'',
                           JArr [JObj [(''type'', JStr ''input_text''),
                                       (''text'', JStr ''hi'')]])])]),
       Close])"
proof -
  have parts: "content_messages [turn ''user'' (JStr ''hi'')] =
      Inr [JObj [(''type'', JStr ''input_text''), (''text'', JStr ''hi'')]]"
    by (simp add: turn_def)
  show ?thesis
    using handshake_classifies[where kvs = "[(''type'', JStr ''error'')]"
            and rest = "[Msg item_ok]" and out = "[]" and skvs = "[]"
            and cfg = example_config and dep = "''gpt''" and sid = JNull
            and messages = "[turn ''user'' (JStr ''hi'')]"]
      handshake_classifies[where kvs = "[(''type'', JStr ''session.created''),
                                         (''session'', JObj [(''name'', JStr ''n'')])]"
            and skvs = "[(''name'', JStr ''n'')]" and rest = "[]" and out = "[]"
            and cfg = example_config and dep = "''gpt''" and sid = JNull
            and messages = "[turn ''user'' (JStr ''hi'')]"
            and parts = "[JObj [(''type'', JStr ''input_text''), (''text'', JStr ''hi'')]]"]
      parts
    by simp
qed

section \<open>The answer to the item request\<close>

text \<open>
  Claim C7. After \<^verbatim>\<open>conversation.item.create\<close> is sent, one event is read and
  classified in this order: with an \<^verbatim>\<open>error\<close> field the call fails with the item
  creation error carrying the error detail; otherwise with a type other than
  \<^verbatim>\<open>conversation.item.created\<close> it fails with the unexpected-event error; otherwise
  the event \<^verbatim>\<open>{"type": "response.create", "response": {}}\<close> is sent and the stream
  is read. In the first two cases nothing is sent after the item request.
\<close>

theorem item_reply_classified:
  assumes "is_session_created hs" and "content_messages messages = Inr parts"
  shows "(map_of kvs ''error'' = Some d \<longrightarrow>
            chat_completion cfg dep messages sid (Accepted (Msg hs # Msg (JObj kvs) # rest)) =
              (Inl (ItemCreationError d),
               [Connect (ws_url cfg dep) (headers cfg),
                Send (JObj [(''type'', JStr ''conversation.item.create''),
                        (''item'',
                         JObj [(''type'', JStr ''message''), (''role'', JStr ''user''),
                               (''content'', JArr parts)])]),
                Close]))
       \<and> (''error'' \<notin> set (map fst kvs)
            \<and> map_of kvs ''type'' \<noteq> Some (JStr ''conversation.item.created'') \<longrightarrow>
            chat_completion cfg dep messages sid (Accepted (Msg hs # Msg (JObj kvs) # rest)) =
              (Inl ExpectedItemCreated,
               [Connect (ws_url cfg dep) (headers cfg),
                Send (JObj [(''type'', JStr ''conversation.item.create''),
                        (''item'',
                         JObj [(''type'', JStr ''message''), (''role'', JStr ''user''),
                               (''content'', JArr parts)])]),
                Close]))
       \<and> (''error'' \<notin> set (map fst kvs)
            \<and> map_of kvs ''type'' = Some (JStr ''conversation.item.created'') \<longrightarrow>
            chat_completion cfg dep messages sid (Accepted (Msg hs # Msg (JObj kvs) # rest)) =
              (fst (stream_loop rest),
               [Connect (ws_url cfg dep) (headers cfg),
                Send (JObj [(''type'', JStr ''conversation.item.create''),
                        (''item'',
                         JObj [(''type'', JStr ''message''), (''role'', JStr ''user''),
                               (''content'', JArr parts)])]),
                Send (JObj [(''type'', JStr ''response.create''), (''response'', JObj [])]),
                Close]))"
  by (simp add: chat_completion_item_reply[OF assms] item_created_error item_created_no_error
        create_item_request_def response_request_def)

theorem item_reply_classified_witness:
  "chat_completion example_config ''gpt'' [turn ''user'' (JStr ''hi'')] JNull
     (Accepted [Msg session_s1, Msg (JObj [(''type'', JStr ''error''), (''error'', rate_limited)])]) =
     (Inl (ItemCreationError rate_limited),
      [Connect (ws_url example_config ''gpt'') (headers example_config),
       Send (JObj [(''type'', JStr ''conversation.item.create''),
                   (''item'',
                    JObj [(''type'', JStr ''message''), (''role'', JStr ''user''),
                          (''content'',
                           JArr [JObj [(''type'', JStr ''input_text''),
                                       (''text'', JStr ''hi'')]])])]), Close])
   \<and> chat_completion example_config ''gpt'' [turn ''user'' (JStr ''hi'')] JNull
     (Accepted [Msg session_s1, Msg delta]) =
     (Inl ExpectedItemCreated,
      [Connect (ws_url example_config ''gpt'') (headers example_config),
       Send (JObj [(''type'', JStr ''conversation.item.create''),
                   (''item'',
                    JObj [(''type'', JStr ''message''), (''role'', JStr ''user''),
                          (''content'',
                           JArr [JObj [(''type'', JStr ''input_text''),
                                       (''text'', JStr ''hi'')]])])]), Close])
   \<and> chat_completion example_config ''gpt'' [turn ''user'' (JStr ''hi'')] JNull
     (Accepted [Msg session_s1, Msg item_ok]) =
     (Inr JNull,
      [Connect (ws_url example_config ''gpt'') (headers example_config),
       Send (JObj [(''type'', JStr ''conversation.item.create''),
                   (''item'',
                    JObj [(''type'', JStr ''message''), (''role'', JStr ''user''),
                          (''content'',
                           JArr [JObj [(''type'', JStr ''input_text''),
                                       (''text'', JStr ''hi'')]])])]),
       Send (JObj [(''type'', JStr ''response.create''), (''response'', JObj [])]), Close])"
proof -
  have hs: "is_session_created session_s1" by (simp add: session_s1_def)
  have parts: "content_messages [turn ''user'' (JStr ''hi'')] =
      Inr [JObj [(''type'', JStr ''input_text''), (''text'', JStr ''hi'')]]"
    by (simp add: turn_def)
  show ?thesis
    using item_reply_classified[OF hs parts,
            where kvs = "[(''type'', JStr ''error''), (''error'', rate_limited)]"
              and d = rate_limited and cfg = example_config and dep = "''gpt''"
              and sid = JNull and rest = "[]"]
      item_reply_classified[OF hs parts,
            where kvs = "[(''type'', JStr ''response.audio_transcript.delta''),
                          (''delta'', JStr ''Hel'')]"
              and cfg = example_config and dep = "''gpt''" and sid = JNull and rest = "[]"]
      item_reply_classified[OF hs parts,
            where kvs = "[(''type'', JStr ''conversation.item.created'')]"
              and cfg = example_config and dep = "''gpt''" and sid = JNull and rest = "[]"]
    by (simp add: delta_def item_ok_def)
qed

section \<open>Connections\<close>

lemma dict_get_not_cancelled: "dict_get j k d \<noteq> Inl CancelledError"
  by (cases j) simp_all

lemma subscript_not_cancelled: "subscript j k \<noteq> Inl CancelledError"
  by (cases j) (simp_all split: option.splits)

lemma py_in_not_cancelled: "py_in k j \<noteq> Inl CancelledError"
  by (cases j) simp_all

lemma py_iter_not_cancelled: "py_iter j \<noteq> Inl CancelledError"
  by (cases j) simp_all

lemma session_created_not_cancelled: "session_created r \<noteq> Inl CancelledError"
  using dict_get_not_cancelled
  by (auto simp: session_created_def split: sum.splits)

lemma item_created_not_cancelled: "item_created r \<noteq> Inl CancelledError"
  using dict_get_not_cancelled py_in_not_cancelled
  by (auto simp: item_created_def split: sum.splits bool.splits)

lemma content_messages_not_cancelled: "content_messages ms \<noteq> Inl CancelledError"
  using subscript_not_cancelled
  by (induction ms) (auto split: sum.splits)

lemma stream_loop_not_cancelled:
  "Cancelled \<notin> set fs \<Longrightarrow> fst (stream_loop fs) \<noteq> Inl CancelledError"
  using dict_get_not_cancelled py_in_not_cancelled
  by (induction fs rule: stream_loop.induct) (auto split: sum.splits bool.splits)

lemma scan_content_not_cancelled: "scan_content cs \<noteq> Inl CancelledError"
  using dict_get_not_cancelled
  by (induction cs) (auto split: sum.splits)

lemma scan_output_not_cancelled: "scan_output items r \<noteq> Inl CancelledError"
  using dict_get_not_cancelled py_iter_not_cancelled scan_content_not_cancelled
  by (induction items arbitrary: r) (auto split: sum.splits option.splits)

lemma extract_transcript_not_cancelled: "extract_transcript r \<noteq> Inl CancelledError"
  using scan_output_not_cancelled py_iter_not_cancelled subscript_not_cancelled
    py_in_not_cancelled
  by (auto simp: extract_transcript_def split: sum.splits if_splits)

lemma exchange_not_cancelled:
  assumes "Cancelled \<notin> set fs"
  shows "fst (exchange messages sid \<lparr>inbound = fs, outbound = []\<rparr>) \<noteq> Inl CancelledError"
proof (cases fs)
  case Nil
  then show ?thesis by (simp add: exchange_def handshake_def receive_message_def)
next
  case (Cons f fs1)
  note outer = Cons
  show ?thesis
  proof (cases f)
    case Undecodable
    then show ?thesis using outer by (simp add: exchange_def handshake_def receive_message_def)
  next
    case Cancelled
    then show ?thesis using outer assms by simp
  next
    case (Msg hs)
    show ?thesis
    proof (cases "session_created hs")
      case (Inl e)
      then show ?thesis
        using outer Msg session_created_not_cancelled[of hs]
        by (simp add: exchange_def handshake_def receive_message_def)
    next
      case (Inr s)
      show ?thesis
      proof (cases "content_messages messages")
        case (Inl e)
        then show ?thesis
          using outer Msg Inr content_messages_not_cancelled[of messages]
          by (simp add: exchange_def handshake_def receive_message_def)
      next
        case parts: (Inr parts)
        show ?thesis
        proof (cases fs1)
          case Nil
          then show ?thesis
            using outer Msg Inr parts
            by (simp add: exchange_def handshake_def receive_message_def send_message_def)
        next
          case inner: (Cons g fs2)
          show ?thesis
          proof (cases g)
            case Undecodable
            then show ?thesis
              using outer Msg Inr parts inner
              by (simp add: exchange_def handshake_def receive_message_def send_message_def)
          next
            case Cancelled
            then show ?thesis using outer inner assms by simp
          next
            case reply: (Msg ev)
            have "Cancelled \<notin> set fs2" using assms outer inner by simp
            then have "fst (stream_loop fs2) \<noteq> Inl CancelledError"
              by (rule stream_loop_not_cancelled)
            then show ?thesis
              using outer Msg Inr parts inner reply item_created_not_cancelled[of ev]
              by (cases "stream_loop fs2")
                 (auto simp: exchange_def handshake_def receive_message_def send_message_def
                    stream_events_def split: sum.splits)
          qed
        qed
      qed
    qed
  qed
qed

lemma execute_turn_not_cancelled:
  assumes "served l"
  shows "fst (execute_turn cfg dep history l) \<noteq> Inl CancelledError"
proof -
  obtain fs where l: "l = Accepted fs" and fs: "Cancelled \<notin> set fs"
    using assms by (cases l) auto
  show ?thesis
    using exchange_not_cancelled[OF fs, of history JNull] extract_transcript_not_cancelled
    by (cases "exchange history JNull \<lparr>inbound = fs, outbound = []\<rparr>")
       (auto simp: l execute_turn_def chat_completion_def split: sum.splits)
qed

lemma connects_sends: "connects (map Send xs @ acts) = connects acts"
  by (induction xs) (simp_all add: connects_def)

lemma closes_sends: "closes (map Send xs @ acts) = closes acts"
  by (induction xs) (simp_all add: closes_def)

lemma connects_append: "connects (xs @ ys) = connects xs + connects ys"
  by (simp add: connects_def)

lemma closes_append: "closes (xs @ ys) = closes xs + closes ys"
  by (simp add: closes_def)

lemma chat_completion_trace:
  "\<exists>sends. snd (chat_completion cfg dep messages sid (Accepted fs)) =
             Connect (ws_url cfg dep) (headers cfg) # map Send sends @ [Close]"
  by (cases "exchange messages sid \<lparr>inbound = fs, outbound = []\<rparr>")
     (auto simp: chat_completion_def)

lemma counts_chat_completion:
  "connects (snd (chat_completion cfg dep messages sid (Accepted fs))) = 1
   \<and> closes (snd (chat_completion cfg dep messages sid (Accepted fs))) = 1"
proof -
  obtain sends where t: "snd (chat_completion cfg dep messages sid (Accepted fs)) =
      [Connect (ws_url cfg dep) (headers cfg)] @ map Send sends @ [Close]"
    using chat_completion_trace[of cfg dep messages sid fs] by auto
  show ?thesis
    unfolding t connects_append closes_append connects_sends closes_sends
    by (simp add: connects_def closes_def)
qed

lemma snd_execute_turn:
  "snd (execute_turn cfg dep history lnk) = snd (chat_completion cfg dep history JNull lnk)"
  by (cases "chat_completion cfg dep history JNull lnk")
     (simp add: execute_turn_def split: sum.splits)

lemma counts_voice_loop:
  assumes "list_all served lnks" and "turns_taken rs \<le> length lnks"
  shows "connects (snd (voice_loop cfg dep rs lnks history)) = turns_taken rs
       \<and> closes (snd (voice_loop cfg dep rs lnks history)) = turns_taken rs"
  using assms
proof (induction cfg dep rs lnks history rule: voice_loop.induct)
  case (1 cfg deployment lnks conversation_history)
  then show ?case by (simp add: connects_def closes_def)
next
  case (2 cfg deployment rs lnks conversation_history)
  then show ?case by simp
next
  case (3 cfg deployment rs lnks conversation_history)
  then show ?case by simp
next
  case (4 cfg deployment said rs lnks conversation_history)
  show ?case
  proof (cases "said = [] \<or> map lower said = ''exit''")
    case True
    then show ?thesis using 4 by (auto simp: connects_def closes_def)
  next
    case False
    let ?h = "conversation_history @ [turn ''user'' (JStr said)]"
    from False "4.prems"(2) obtain l ls where lnks: "lnks = l # ls"
      by (cases lnks) auto
    then have l: "served l" and ls: "list_all served ls" and n: "turns_taken rs \<le> length ls"
      using "4.prems" False by auto
    obtain fs where acc: "l = Accepted fs" using l by (cases l) auto
    obtain r acts where e: "execute_turn cfg deployment ?h (next_link lnks) = (r, acts)"
      by (cases "execute_turn cfg deployment ?h (next_link lnks)")
    have nl: "next_link lnks = l" by (simp add: lnks next_link_def)
    have one: "connects acts = 1 \<and> closes acts = 1"
      using snd_execute_turn[of cfg deployment ?h l]
        counts_chat_completion[of cfg deployment ?h JNull fs] e
      by (simp add: nl acc)
    have nc: "r \<noteq> Inl CancelledError"
      using execute_turn_not_cancelled[OF l, of cfg deployment ?h] e by (simp add: nl)
    show ?thesis
    proof (cases r)
      case (Inl err)
      then have err: "err \<noteq> CancelledError" using nc by simp
      show ?thesis
        using False e one Inl err lnks
          "4.IH"(2)[OF _ _ e[symmetric] Inl err] ls n
        by (auto simp: connects_append closes_append split: prod.splits)
    next
      case (Inr response)
      then show ?thesis
        using False e one lnks "4.IH"(3)[OF _ _ e[symmetric] Inr] ls n
        by (auto simp: connects_append closes_append split: prod.splits)
    qed
  qed
qed

lemma chat_completion_cancelled_reply:
  assumes "is_session_created hs" and "content_messages messages = Inr parts"
  shows "chat_completion cfg dep messages sid (Accepted (Msg hs # Cancelled # rest)) =
           (Inl CancelledError,
            [Connect (ws_url cfg dep) (headers cfg), Send (create_item_request parts), Close])"
proof -
  obtain s where "session_created hs = Inr s" using assms(1) session_created_ok by blast
  then show ?thesis using assms(2)
    by (simp add: chat_completion_def exchange_def handshake_def receive_message_def
        send_message_def)
qed

text \<open>
  Claim C8, as the code has it. A call of \<^verbatim>\<open>chat_completion\<close> whose connection is
  refused holds no transport. A call whose connection is accepted holds exactly one: it
  is opened first and closed last, with nothing but the sends between, on every way out
  of the \<^verbatim>\<open>async with\<close> block. The ways out are spelled out with what has been sent
  by then: normal completion at \<^verbatim>\<open>response.done\<close>; an exception, here an undecodable
  frame in the stream; and the cancellation of the task at each of the three places where
  it waits for a receive. Successive turns reuse neither session nor transport: when every
  connection is accepted and the task is not cancelled, the voice chat opens and closes
  one connection for every turn it takes.
\<close>

theorem transport_closed_on_every_exit:
  assumes "is_session_created hs" and "content_messages messages = Inr parts"
    and "is_item_created ic" and "list_all intermediate mids"
  shows "chat_completion cfg dep messages sid Refused =
           (Inl ConnectError, [Connect (ws_url cfg dep) (headers cfg)])
       \<and> (\<exists>sends. snd (chat_completion cfg dep messages sid (Accepted fs)) =
              Connect (ws_url cfg dep) (headers cfg) # map Send sends @ [Close])
       \<and> connects (snd (chat_completion cfg dep messages sid (Accepted fs))) = 1
       \<and> closes (snd (chat_completion cfg dep messages sid (Accepted fs))) = 1
       \<and> (''error'' \<notin> set (map fst dkvs)
            \<and> map_of dkvs ''type'' = Some (JStr ''response.done'')
            \<and> map_of dkvs ''response'' = Some r \<longrightarrow>
          chat_completion cfg dep messages sid
            (Accepted (Msg hs # Msg ic # map Msg mids @ Msg (JObj dkvs) # rest)) =
            (Inr r,
             [Connect (ws_url cfg dep) (headers cfg),
              Send (JObj [(''type'', JStr ''conversation.item.create''),
                        (''item'',
                         JObj [(''type'', JStr ''message''), (''role'', JStr ''user''),
                               (''content'', JArr parts)])]),
              Send (JObj [(''type'', JStr ''response.create''), (''response'', JObj [])]),
              Close]))
       \<and> chat_completion cfg dep messages sid
            (Accepted (Msg hs # Msg ic # map Msg mids @ Undecodable # rest)) =
            (Inl JSONDecodeError,
             [Connect (ws_url cfg dep) (headers cfg),
              Send (JObj [(''type'', JStr ''conversation.item.create''),
                        (''item'',
                         JObj [(''type'', JStr ''message''), (''role'', JStr ''user''),
                               (''content'', JArr parts)])]),
              Send (JObj [(''type'', JStr ''response.create''), (''response'', JObj [])]),
              Close])
       \<and> chat_completion cfg dep messages sid (Accepted (Cancelled # rest)) =
            (Inl CancelledError, [Connect (ws_url cfg dep) (headers cfg), Close])
       \<and> chat_completion cfg dep messages sid (Accepted (Msg hs # Cancelled # rest)) =
            (Inl CancelledError,
             [Connect (ws_url cfg dep) (headers cfg),
              Send (JObj [(''type'', JStr ''conversation.item.create''),
                        (''item'',
                         JObj [(''type'', JStr ''message''), (''role'', JStr ''user''),
                               (''content'', JArr parts)])]),
              Close])
       \<and> chat_completion cfg dep messages sid
            (Accepted (Msg hs # Msg ic # map Msg mids @ Cancelled # rest)) =
            (Inl CancelledError,
             [Connect (ws_url cfg dep) (headers cfg),
              Send (JObj [(''type'', JStr ''conversation.item.create''),
                        (''item'',
                         JObj [(''type'', JStr ''message''), (''role'', JStr ''user''),
                               (''content'', JArr parts)])]),
              Send (JObj [(''type'', JStr ''response.create''), (''response'', JObj [])]),
              Close])
       \<and> (list_all served lnks \<and> turns_taken rs \<le> length lnks \<longrightarrow>
            connects (snd (voice_loop cfg dep rs lnks history)) = turns_taken rs
            \<and> closes (snd (voice_loop cfg dep rs lnks history)) = turns_taken rs)"
proof -
  have refused: "chat_completion cfg dep messages sid Refused =
      (Inl ConnectError, [Connect (ws_url cfg dep) (headers cfg)])"
    by (simp add: chat_completion_def)
  have finished: "chat_completion cfg dep messages sid
            (Accepted (Msg hs # Msg ic # map Msg mids @ Msg (JObj dkvs) # rest)) =
            (Inr r,
             [Connect (ws_url cfg dep) (headers cfg),
              Send (JObj [(''type'', JStr ''conversation.item.create''),
                        (''item'',
                         JObj [(''type'', JStr ''message''), (''role'', JStr ''user''),
                               (''content'', JArr parts)])]),
              Send (JObj [(''type'', JStr ''response.create''), (''response'', JObj [])]),
              Close])"
    if "''error'' \<notin> set (map fst dkvs)"
      and "map_of dkvs ''type'' = Some (JStr ''response.done'')"
      and "map_of dkvs ''response'' = Some r"
    by (simp add: chat_completion_stream[OF assms] stream_loop_done[OF that]
          create_item_request_def response_request_def del: stream_loop.simps)
  have raised: "chat_completion cfg dep messages sid
            (Accepted (Msg hs # Msg ic # map Msg mids @ Undecodable # rest)) =
            (Inl JSONDecodeError,
             [Connect (ws_url cfg dep) (headers cfg),
              Send (JObj [(''type'', JStr ''conversation.item.create''),
                        (''item'',
                         JObj [(''type'', JStr ''message''), (''role'', JStr ''user''),
                               (''content'', JArr parts)])]),
              Send (JObj [(''type'', JStr ''response.create''), (''response'', JObj [])]),
              Close])"
    by (simp add: chat_completion_stream[OF assms] create_item_request_def response_request_def)
  have cancel0: "chat_completion cfg dep messages sid (Accepted (Cancelled # rest)) =
            (Inl CancelledError, [Connect (ws_url cfg dep) (headers cfg), Close])"
    by (simp add: chat_completion_def exchange_def handshake_def receive_message_def)
  have cancel1: "chat_completion cfg dep messages sid (Accepted (Msg hs # Cancelled # rest)) =
            (Inl CancelledError,
             [Connect (ws_url cfg dep) (headers cfg),
              Send (JObj [(''type'', JStr ''conversation.item.create''),
                        (''item'',
                         JObj [(''type'', JStr ''message''), (''role'', JStr ''user''),
                               (''content'', JArr parts)])]),
              Close])"
    by (simp add: chat_completion_cancelled_reply[OF assms(1,2)] create_item_request_def)
  have cancel2: "chat_completion cfg dep messages sid
            (Accepted (Msg hs # Msg ic # map Msg mids @ Cancelled # rest)) =
            (Inl CancelledError,
             [Connect (ws_url cfg dep) (headers cfg),
              Send (JObj [(''type'', JStr ''conversation.item.create''),
                        (''item'',
                         JObj [(''type'', JStr ''message''), (''role'', JStr ''user''),
                               (''content'', JArr parts)])]),
              Send (JObj [(''type'', JStr ''response.create''), (''response'', JObj [])]),
              Close])"
    by (simp add: chat_completion_stream[OF assms] create_item_request_def response_request_def)
  show ?thesis
    using refused finished raised cancel0 cancel1 cancel2
      chat_completion_trace[of cfg dep messages sid fs]
      counts_chat_completion[of cfg dep messages sid fs]
      counts_voice_loop[of lnks rs cfg dep history]
    by blast
qed

theorem transport_closed_on_every_exit_witness:
  "chat_completion example_config ''gpt'' [turn ''user'' (JStr ''hi'')] JNull
     (Accepted [Msg session_s1, Msg item_ok, Msg delta,
                Msg (JObj [(''type'', JStr ''response.done''), (''response'', JStr ''r'')]),
                Msg delta]) =
     (Inr (JStr ''r''),
      [Connect (ws_url example_config ''gpt'') (headers example_config),
       Send (JObj [(''type'', JStr ''conversation.item.create''),
                   (''item'',
                    JObj [(''type'', JStr ''message''), (''role'', JStr ''user''),
                          (''content'',
                           JArr [JObj [(''type'', JStr ''input_text''),
                                       (''text'', JStr ''hi'')]])])]),
       Send (JObj [(''type'', JStr ''response.create''), (''response'', JObj [])]),
       Close])
   \<and> chat_completion example_config ''gpt'' [turn ''user'' (JStr ''hi'')] JNull
     (Accepted [Msg session_s1, Msg item_ok, Msg delta, Cancelled, Msg delta]) =
     (Inl CancelledError,
      [Connect (ws_url example_config ''gpt'') (headers example_config),
       Send (JObj [(''type'', JStr ''conversation.item.create''),
                   (''item'',
                    JObj [(''type'', JStr ''message''), (''role'', JStr ''user''),
                          (''content'',
                           JArr [JObj [(''type'', JStr ''input_text''),
                                       (''text'', JStr ''hi'')]])])]),
       Send (JObj [(''type'', JStr ''response.create''), (''response'', JObj [])]),
       Close])
   \<and> connects (snd (voice_loop example_config ''gpt''
                    [RecognizedSpeech ''hi'', NoMatch, RecognizedSpeech ''more'',
                     RecognizedSpeech ''Exit'', RecognizedSpeech ''late'']
                    [Accepted [Msg session_s1, Msg item_ok], Accepted []]
                    initial_history)) = 2
   \<and> closes (snd (voice_loop example_config ''gpt''
                    [RecognizedSpeech ''hi'', NoMatch, RecognizedSpeech ''more'',
                     RecognizedSpeech ''Exit'', RecognizedSpeech ''late'']
                    [Accepted [Msg session_s1, Msg item_ok], Accepted []]
                    initial_history)) = 2"
proof -
  have hs: "is_session_created session_s1" by (simp add: session_s1_def)
  have parts: "content_messages [turn ''user'' (JStr ''hi'')] =
      Inr [JObj [(''type'', JStr ''input_text''), (''text'', JStr ''hi'')]]"
    by (simp add: turn_def)
  have ic: "is_item_created item_ok" by (simp add: item_ok_def)
  have mids: "list_all intermediate [delta]" by (simp add: delta_def)
  have lnks: "list_all served [Accepted [Msg session_s1, Msg item_ok], Accepted []]"
    by simp
  have n: "turns_taken [RecognizedSpeech ''hi'', NoMatch, RecognizedSpeech ''more'',
                        RecognizedSpeech ''Exit'', RecognizedSpeech ''late''] = 2"
    by (simp add: lower_def)
  show ?thesis
    using transport_closed_on_every_exit[OF hs parts ic mids,
            where cfg = example_config and dep = "''gpt''" and sid = JNull
              and dkvs = "[(''type'', JStr ''response.done''), (''response'', JStr ''r'')]"
              and r = "JStr ''r''" and rest = "[Msg delta]"
              and rs = "[RecognizedSpeech ''hi'', NoMatch, RecognizedSpeech ''more'',
                         RecognizedSpeech ''Exit'', RecognizedSpeech ''late'']"
              and lnks = "[Accepted [Msg session_s1, Msg item_ok], Accepted []]"
              and history = initial_history]
      lnks n
    by simp
qed

text \<open>
  Claim C8 as stated fails: two successive turns of the voice chat open two connections,
  the second after the first has been closed.
\<close>

theorem session_reuse_counterexample:
  "snd (voice_loop example_config ''gpt''
          [RecognizedSpeech ''hi'', RecognizedSpeech ''more'']
          [Accepted [Msg session_s1, Msg item_ok,
                     Msg (response_done
                            [assistant_message
                               [JObj [(''type'', JStr ''audio''), (''transcript'', JStr ''Hello!'')]]])],
           Accepted [Msg session_s1, Msg item_ok,
                     Msg (response_done
                            [assistant_message
                               [JObj [(''type'', JStr ''audio''), (''transcript'', JStr ''Sure.'')]]])]]
          initial_history) =
     [Connect (ws_url example_config ''gpt'') (headers example_config),
      Send (create_item_request
              [input_text (JStr ''You are a helpful assistant. Keep your responses concise and natural.''),
               input_text (JStr ''hi'')]),
      Send response_request,
      Close,
      Connect (ws_url example_config ''gpt'') (headers example_config),
      Send (create_item_request
              [input_text (JStr ''You are a helpful assistant. Keep your responses concise and natural.''),
               input_text (JStr ''hi''), input_text (JStr ''Hello!''), input_text (JStr ''more'')]),
      Send response_request,
      Close]"
  by (simp add: run_defs example_defs lower_def next_link_def)

section \<open>The \<^verbatim>\<open>session_id\<close> argument\<close>

text \<open>
  Claim C10. The \<^verbatim>\<open>session_id\<close> argument of \<^verbatim>\<open>chat_completion\<close> has no effect:
  two calls that differ only in it send the same messages and return the same value.
\<close>

theorem session_id_ignored:
  "chat_completion cfg dep messages sid1 lnk = chat_completion cfg dep messages sid2 lnk"
proof -
  have "exchange messages sid1 ws = exchange messages sid2 ws" for ws
    by (simp add: exchange_def)
  then show ?thesis
    by (cases lnk) (simp_all add: chat_completion_def)
qed

end
